theory Spec2Isabelle
  imports Main
begin

section \<open>Topic templates (package topics, Template and its methods)\<close>

text \<open>The hashID kind declared for a topic: \<^verbatim>\<open>HashID HashType = iota; MD5\<close>.\<close>

datatype HashType = HashID | MD5

text \<open>
  Modelled from the spec: the type \<^verbatim>\<open>acl.AccessType\<close> is declared in package
  \<^verbatim>\<open>pkg/acl\<close>, which is not among the sources. The spec's data model gives it as the
  enumeration Publish, Subscribe, PublishSubscribe (wildcard) and Unset (sentinel default); the
  code names the first three \<^verbatim>\<open>acl.Pub\<close>, \<^verbatim>\<open>acl.Sub\<close>, \<^verbatim>\<open>acl.PubSub\<close>. \<open>Unset\<close> is the
  zero value of the type, which is what a Go map read yields for a key that has no entry.
\<close>

datatype AccessType = Unset | Sub | Pub | PubSub

text \<open>The substitution context handed to a template: Go's \<^verbatim>\<open>map[string]string\<close>.\<close>

type_synonym fields_map = "string \<rightharpoonup> string"

text \<open>
  \<^verbatim>\<open>*template.Template\<close> belongs to Go's library \<^verbatim>\<open>text/template\<close>. A compiled template
  is taken as what its \<^verbatim>\<open>Execute\<close> does on a field map: the text it has written to the
  writer, and the error it returns (\<open>None\<close> for \<^verbatim>\<open>nil\<close>). On an error the writer may
  already hold a part of the output.
\<close>

type_synonym template = "fields_map \<Rightarrow> string \<times> string option"

text \<open>
  Modelled from the spec: the field \<^verbatim>\<open>Regex\<close>, which \<^verbatim>\<open>GetTopicTemplate\<close> and
  \<^verbatim>\<open>GetTopicType\<close> read as \<^verbatim>\<open>each.Regex.MatchString(topic)\<close>, is missing from the
  declaration of \<^verbatim>\<open>Template\<close> among the sources. The spec gives every compiled topic a
  matcher that recognises the concrete topic strings of its family; the field is that matcher,
  as the predicate \<^verbatim>\<open>MatchString\<close> computes.
\<close>

record Template =
  Type :: string
  Template :: template
  Regex :: "string \<Rightarrow> bool"
  HashType :: HashType
  Accesses :: "string \<rightharpoonup> AccessType"

text \<open>
  \<^verbatim>\<open>Template.Parse\<close>: executes the template into a fresh builder; an error of the
  execution gives the empty string, whatever the builder holds by then.
\<close>

definition Parse :: "Template \<Rightarrow> fields_map \<Rightarrow> string" where
  "Parse t flds =
     (case Template t flds of
        (writer, Some err) \<Rightarrow> ''''
      | (writer, None) \<Rightarrow> writer)"

text \<open>A read \<^verbatim>\<open>t.Accesses[audience]\<close> of a Go map: the zero value when the key is absent.\<close>

definition access_of :: "(string \<rightharpoonup> AccessType) \<Rightarrow> string \<Rightarrow> AccessType" where
  "access_of accesses audience =
     (case accesses audience of None \<Rightarrow> Unset | Some access \<Rightarrow> access)"

text \<open>\<^verbatim>\<open>Template.HasAccess\<close>: check if user has access on topic.\<close>

definition HasAccess :: "Template \<Rightarrow> string \<Rightarrow> AccessType \<Rightarrow> bool" where
  "HasAccess t audience accessType =
     (let access = access_of (Accesses t) audience
      in access = PubSub \<or> access = accessType)"

section \<open>The topic manager (package topics, t.go)\<close>

definition CabEvent :: string where "CabEvent = ''cab_event''"
definition DriverLocation :: string where "DriverLocation = ''driver_location''"
definition SuperappEvent :: string where "SuperappEvent = ''superapp_event''"
definition BoxEvent :: string where "BoxEvent = ''box_event''"
definition SharedLocation :: string where "SharedLocation = ''shared_location''"
definition Chat :: string where "Chat = ''chat''"
definition GeneralCallEntry :: string where "GeneralCallEntry = ''general_call_entry''"
definition NodeCallEntry :: string where "NodeCallEntry = ''node_call_entry''"
definition CallOutgoing :: string where "CallOutgoing = ''call_outgoing''"

definition Driver :: string where "Driver = ''driver''"
definition Passenger :: string where "Passenger = ''passenger''"

text \<open>EmqCabHashPrefix is the default prefix for hashing part of cab topic.\<close>

definition EmqCabHashPrefix :: string where "EmqCabHashPrefix = ''emqch''"

text \<open>
  The errors and panics of the package: \<^verbatim>\<open>ErrDecodeHashID\<close>, and the run-time panic of
  an index expression out of range (index and length).
\<close>

datatype error = ErrDecodeHashID

datatype panic = IndexOutOfRange nat nat

text \<open>
  Modelled from the spec: \<^verbatim>\<open>user.Issuer\<close> is declared in package \<^verbatim>\<open>pkg/user\<close>, which
  is not among the sources. The code tells \<^verbatim>\<open>user.Passenger\<close> and \<^verbatim>\<open>user.Driver\<close>
  from every other issuer; the others carry their name.
\<close>

datatype Issuer = user_Driver | user_Passenger | user_Other string

text \<open>
  \<^verbatim>\<open>snappids.Audience\<close> of the library snappids: the two audiences the code names, and
  the value \<^verbatim>\<open>-1\<close> that \<^verbatim>\<open>issuerToAudience\<close> gives for any other issuer.
\<close>

datatype Audience = PassengerAudience | DriverAudience | NoAudience

text \<open>
  \<^verbatim>\<open>snappids.HashIDSManager\<close> of the library snappids, taken as what its method
  \<^verbatim>\<open>DecodeHashID\<close> returns: \<open>Inl\<close> the error message, \<open>Inr\<close> the decoded id.
\<close>

record HashIDSManager =
  DecodeHashID :: "string \<Rightarrow> Audience \<Rightarrow> string + int"

record Manager =
  HashIDSManager :: HashIDSManager
  Company :: string
  TopicTemplates :: "Template list"

subsection \<open>Library functions on strings\<close>

text \<open>\<^verbatim>\<open>strings.HasPrefix\<close> and \<^verbatim>\<open>strings.TrimPrefix\<close>.\<close>

definition HasPrefix :: "string \<Rightarrow> string \<Rightarrow> bool" where
  "HasPrefix s pre = (length pre \<le> length s \<and> take (length pre) s = pre)"

definition TrimPrefix :: "string \<Rightarrow> string \<Rightarrow> string" where
  "TrimPrefix s pre = (if HasPrefix s pre then drop (length pre) s else s)"

text \<open>
  \<^verbatim>\<open>strings.Split(s, sep)\<close> for a separator of one byte: the pieces between the
  separators, one more than there are separators (so one empty piece for the empty string).
\<close>

fun Split :: "string \<Rightarrow> char \<Rightarrow> string list" where
  "Split [] sep = [[]]"
| "Split (c # cs) sep =
     (if c = sep then [] # Split cs sep
      else (case Split cs sep of
              [] \<Rightarrow> [[c]]
            | piece # pieces \<Rightarrow> (c # piece) # pieces))"

text \<open>\<^verbatim>\<open>strconv.Itoa\<close>: the decimal string of an integer.\<close>

definition digit_char :: "nat \<Rightarrow> char" where
  "digit_char d = char_of (of_char CHR ''0'' + d)"

fun decimal :: "nat \<Rightarrow> string" where
  "decimal n = (if n < 10 then [digit_char n] else decimal (n div 10) @ [digit_char (n mod 10)])"

definition Itoa :: "int \<Rightarrow> string" where
  "Itoa i = (if i < 0 then CHR ''-'' # decimal (nat (- i)) else decimal (nat i))"

text \<open>
  \<^verbatim>\<open>fmt.Sprintf("%x", hid)\<close> on a byte array: two lower-case hexadecimal digits for
  every byte.
\<close>

definition hex_digit :: "nat \<Rightarrow> char" where
  "hex_digit d = (if d < 10 then char_of (of_char CHR ''0'' + d)
                  else char_of (of_char CHR ''a'' + (d - 10)))"

definition hex_byte :: "char \<Rightarrow> string" where
  "hex_byte b = [hex_digit (of_char b div 16), hex_digit (of_char b mod 16)]"

definition Sprintf_x :: "string \<Rightarrow> string" where
  "Sprintf_x bytes = concat (map hex_byte bytes)"

subsection \<open>Issuers and audiences\<close>

text \<open>issuerToAudience returns corresponding audience in snappids form.\<close>

fun issuerToAudience :: "Issuer \<Rightarrow> Audience" where
  "issuerToAudience user_Passenger = PassengerAudience"
| "issuerToAudience user_Driver = DriverAudience"
| "issuerToAudience (user_Other name) = NoAudience"

text \<open>issuerToAudienceStr returns corresponding audience in string form.\<close>

fun issuerToAudienceStr :: "Issuer \<Rightarrow> string" where
  "issuerToAudienceStr user_Passenger = Passenger"
| "issuerToAudienceStr user_Driver = Driver"
| "issuerToAudienceStr (user_Other name) = ''''"

definition peerOfAudience :: "string \<Rightarrow> string" where
  "peerOfAudience audience =
     (if audience = Driver then Passenger
      else if audience = Passenger then Driver
      else '''')"

subsection \<open>Classification\<close>

text \<open>
  The loop of \<^verbatim>\<open>GetTopicTemplate\<close> over \<^verbatim>\<open>t.TopicTemplates\<close>: the first template whose
  \<^verbatim>\<open>Regex\<close> matches the topic is returned with \<^verbatim>\<open>true\<close>; \<open>None\<close> is
  \<^verbatim>\<open>nil, false\<close>.
\<close>

fun firstTemplate :: "Template list \<Rightarrow> string \<Rightarrow> Template option" where
  "firstTemplate [] topic = None"
| "firstTemplate (each # rest) topic =
     (if Regex each topic then Some each else firstTemplate rest topic)"

definition GetTopicTemplate :: "Manager \<Rightarrow> string \<Rightarrow> Template option" where
  "GetTopicTemplate t input =
     (let topic = TrimPrefix input (Company t)
      in firstTemplate (TopicTemplates t) topic)"

text \<open>
  GetTopicType finds topic type based on regexes. The loop returns the type of the first
  template whose \<^verbatim>\<open>Regex\<close> matches, and the empty string when none does.
\<close>

fun firstType :: "Template list \<Rightarrow> string \<Rightarrow> string" where
  "firstType [] topic = ''''"
| "firstType (each # rest) topic =
     (if Regex each topic then Type each else firstType rest topic)"

definition GetTopicType :: "Manager \<Rightarrow> string \<Rightarrow> string" where
  "GetTopicType t input =
     (let topic = TrimPrefix input (Company t)
      in firstType (TopicTemplates t) topic)"

text \<open>IsTopicValid returns true if it finds a topic type for the given topic.\<close>

definition IsTopicValid :: "Manager \<Rightarrow> string \<Rightarrow> bool" where
  "IsTopicValid t topic = (length (GetTopicType t topic) \<noteq> 0)"

subsection \<open>The identity token and the self-topic check\<close>

text \<open>
  \<^verbatim>\<open>Manager.getHashID\<close>. The digest \<^verbatim>\<open>md5.Sum\<close> of Go's library is the parameter
  \<open>md5_Sum\<close>, from the bytes of the message to the sixteen bytes of the digest.
\<close>

definition getHashID ::
  "(string \<Rightarrow> string) \<Rightarrow> Manager \<Rightarrow> string \<Rightarrow> string \<Rightarrow> Issuer \<Rightarrow> error + string" where
  "getHashID md5_Sum t topicType sub issuer =
     (if topicType = CabEvent then
        (case DecodeHashID (HashIDSManager t) sub (issuerToAudience issuer) of
           Inl err \<Rightarrow> Inl ErrDecodeHashID
         | Inr ident \<Rightarrow>
             (let hid = md5_Sum (EmqCabHashPrefix @ ''-'' @ Itoa ident)
              in Inr (Sprintf_x hid)))
      else Inr sub)"

text \<open>A read \<^verbatim>\<open>fields[key]\<close> of the Go map: the empty string when the key is absent.\<close>

definition field_of :: "fields_map \<Rightarrow> string \<Rightarrow> string" where
  "field_of flds key = (case flds key of None \<Rightarrow> '''' | Some v \<Rightarrow> v)"

text \<open>
  \<^verbatim>\<open>Manager.ValidateTopicBySender\<close>. The result is \<open>Inr\<close> the boolean the function
  returns, or \<open>Inl\<close> the panic of the index expression \<^verbatim>\<open>strings.Split(topic, "/")[4]\<close>
  when the topic has fewer than five pieces.
\<close>

definition ValidateTopicBySender ::
  "(string \<Rightarrow> string) \<Rightarrow> Manager \<Rightarrow> string \<Rightarrow> Issuer \<Rightarrow> string \<Rightarrow> panic + bool" where
  "ValidateTopicBySender md5_Sum t topic issuer sub =
     (case GetTopicTemplate t topic of
        None \<Rightarrow> Inr False
      | Some topicTemplate \<Rightarrow>
          (let audience = issuerToAudienceStr issuer;
               fields0 = Map.empty(''audience'' \<mapsto> audience);
               fields1 = fields0(''company'' \<mapsto> Company t);
               fields2 = fields1(''peer'' \<mapsto> peerOfAudience (field_of fields1 ''audience''))
           in case getHashID md5_Sum t (Type topicTemplate) sub issuer of
                Inl err \<Rightarrow> Inr False
              | Inr hashID \<Rightarrow>
                  (let fields3 = fields2(''hashId'' \<mapsto> hashID)
                   in if Type topicTemplate = NodeCallEntry then
                        (let pieces = Split topic CHR ''/''
                         in if 4 < length pieces then
                              Inr (Parse topicTemplate (fields3(''node'' \<mapsto> pieces ! 4)) = topic)
                            else Inl (IndexOutOfRange 4 (length pieces)))
                      else Inr (Parse topicTemplate fields3 = topic))))"

section \<open>The authenticator (package authenticator, AutoAuthenticator)\<close>

text \<open>
  A value of \<^verbatim>\<open>jwt.MapClaims\<close>, that is of \<^verbatim>\<open>map[string]interface{}\<close>: \<^verbatim>\<open>nil\<close>,
  a string, or a value of another type, kept as the text that \<^verbatim>\<open>fmt.Sprintf("%v", _)\<close>
  prints for it.
\<close>

datatype claim_value = ClaimNil | ClaimString string | ClaimOther string

type_synonym MapClaims = "string \<rightharpoonup> claim_value"

text \<open>A read \<^verbatim>\<open>claims[name]\<close>: \<^verbatim>\<open>nil\<close> when the claim is absent.\<close>

definition claim_of :: "MapClaims \<Rightarrow> string \<Rightarrow> claim_value" where
  "claim_of claims name = (case claims name of None \<Rightarrow> ClaimNil | Some v \<Rightarrow> v)"

text \<open>\<^verbatim>\<open>fmt.Sprintf("%v", v)\<close> on a claim.\<close>

fun Sprintf_v :: "claim_value \<Rightarrow> string" where
  "Sprintf_v ClaimNil = ''<nil>''"
| "Sprintf_v (ClaimString s) = s"
| "Sprintf_v (ClaimOther shown) = shown"

text \<open>The type assertion \<^verbatim>\<open>v.(string)\<close> with its flag dropped: the empty string for a
  value that is not a string.\<close>

fun assert_string :: "claim_value \<Rightarrow> string" where
  "assert_string (ClaimString s) = s"
| "assert_string ClaimNil = ''''"
| "assert_string (ClaimOther shown) = ''''"

text \<open>The errors that \<^verbatim>\<open>ACL\<close> returns.\<close>

datatype acl_error =
    ErrInvalidAccessType
  | ErrInvalidClaims
  | ErrIssNotFound
  | ErrSubNotFound
  | InvalidTopicError string
  | TopicNotAllowedError string string AccessType string string

record JWT =
  IssName :: string
  SubName :: string

text \<open>
  The fields of \<^verbatim>\<open>AutoAuthenticator\<close> that \<^verbatim>\<open>ACL\<close> reads. \<^verbatim>\<open>Parser\<close> is the
  \<^verbatim>\<open>*jwt.Parser\<close> of the library, taken as what \<^verbatim>\<open>ParseUnverified\<close> returns for a
  token string: \<open>Inl\<close> the error message, \<open>Inr\<close> the claims.
\<close>

record AutoAuthenticator =
  AllowedAccessTypes :: "AccessType list"
  TopicManager :: Manager
  JWTConfig :: JWT
  Parser :: "string \<Rightarrow> string + MapClaims"

text \<open>\<^verbatim>\<open>AutoAuthenticator.ValidateAccessType\<close>: the loop over the allowed access types.\<close>

fun allowed_loop :: "AccessType list \<Rightarrow> AccessType \<Rightarrow> bool" where
  "allowed_loop [] accessType = False"
| "allowed_loop (allowedAccessType # rest) accessType =
     (if allowedAccessType = accessType then True else allowed_loop rest accessType)"

definition ValidateAccessType :: "AutoAuthenticator \<Rightarrow> AccessType \<Rightarrow> bool" where
  "ValidateAccessType a accessType = allowed_loop (AllowedAccessTypes a) accessType"

text \<open>
  \<^verbatim>\<open>AutoAuthenticator.ACL\<close>: check a user access to a topic. The method
  \<^verbatim>\<open>Manager.ParseTopic\<close> that it calls is not among the sources; it is the parameter
  \<open>ParseTopic\<close>, which gives the matched template, or \<open>None\<close> for \<^verbatim>\<open>nil\<close>. The
  result is the pair that the function returns, \<open>None\<close> being the \<^verbatim>\<open>nil\<close> error.
\<close>

definition ACL ::
  "(Manager \<Rightarrow> string \<Rightarrow> string \<Rightarrow> string \<Rightarrow> MapClaims \<Rightarrow> Template option) \<Rightarrow>
   AutoAuthenticator \<Rightarrow> AccessType \<Rightarrow> string \<Rightarrow> string \<Rightarrow> bool \<times> acl_error option" where
  "ACL ParseTopic a accessType tokenString topic =
     (if \<not> ValidateAccessType a accessType then (False, Some ErrInvalidAccessType)
      else case Parser a tokenString of
        Inl err \<Rightarrow> (False, Some ErrInvalidClaims)
      | Inr claims \<Rightarrow>
          if claim_of claims (IssName (JWTConfig a)) = ClaimNil then (False, Some ErrIssNotFound)
          else
            (let issuer = Sprintf_v (claim_of claims (IssName (JWTConfig a)))
             in if claim_of claims (SubName (JWTConfig a)) = ClaimNil
                then (False, Some ErrSubNotFound)
                else
                  (let sub = assert_string (claim_of claims (SubName (JWTConfig a)))
                   in case ParseTopic (TopicManager a) topic issuer sub claims of
                        None \<Rightarrow> (False, Some (InvalidTopicError topic))
                      | Some topicTemplate \<Rightarrow>
                          if \<not> HasAccess topicTemplate issuer accessType
                          then (False, Some (TopicNotAllowedError issuer sub accessType topic
                                               (Type topicTemplate)))
                          else (True, None))))"

section \<open>An example registry\<close>

text \<open>
  A registry of four topic families for the company \<open>snapp\<close>, used to evaluate the
  functions above on concrete topics. \<open>contains\<close> is the matcher of an unanchored regular
  expression that is a literal: the string has the literal as a substring.
\<close>

fun contains :: "string \<Rightarrow> string \<Rightarrow> bool" where
  "contains [] lit = (lit = [])"
| "contains (c # cs) lit = (HasPrefix (c # cs) lit \<or> contains cs lit)"

text \<open>
  What the action \<^verbatim>\<open>{{.key}}\<close> of \<^verbatim>\<open>text/template\<close> writes for a field map under
  the default options: the value of the key, and \<^verbatim>\<open><no value>\<close> for a key that the
  map does not have.
\<close>

definition print_field :: "fields_map \<Rightarrow> string \<Rightarrow> string" where
  "print_field flds key = (case flds key of None \<Rightarrow> ''<no value>'' | Some v \<Rightarrow> v)"

text \<open>
  The digest on the one message the examples hash: the sixteen bytes of the MD5 digest of
  \<open>emqch-123\<close>, whose hexadecimal form \<open>152384980615c2bd16143cff29038b67\<close> is the
  token in the topic of the repository's test of a valid driver cab event (driver id 123).
\<close>

definition example_digest :: "string \<Rightarrow> string" where
  "example_digest msg =
     (if msg = ''emqch-123''
      then [CHR 0x15, CHR 0x23, CHR 0x84, CHR 0x98, CHR 0x06, CHR 0x15, CHR 0xc2, CHR 0xbd,
            CHR 0x16, CHR 0x14, CHR 0x3c, CHR 0xff, CHR 0x29, CHR 0x03, CHR 0x8b, CHR 0x67]
      else replicate 16 (CHR 0x00))"

text \<open>A codec that decodes one token of the driver audience, to the id 123.\<close>

definition example_hashids :: HashIDSManager where
  "example_hashids =
     \<lparr>DecodeHashID = (\<lambda>sub audience.
        if sub = ''DXKgaNQa7N5Y7bo'' \<and> audience = DriverAudience then Inr 123
        else Inl ''could not decode'')\<rparr>"

text \<open>The template \<^verbatim>\<open>{{.audience}}-event-{{.hashId}}\<close>, matched by \<^verbatim>\<open>-event-\<close>.\<close>

definition example_cab_event :: Template where
  "example_cab_event =
     \<lparr>Type = CabEvent,
      Template = (\<lambda>f. (print_field f ''audience'' @ ''-event-'' @ print_field f ''hashId'', None)),
      Regex = (\<lambda>s. contains s ''-event-''),
      HashType = HashID,
      Accesses = [''driver'' \<mapsto> Sub, ''passenger'' \<mapsto> Sub]\<rparr>"

text \<open>
  The template \<^verbatim>\<open>{{.company}}/{{.audience}}/{{.hashId}}/location\<close>, matched by
  \<^verbatim>\<open>/location\<close>; its declared hash type is \<open>MD5\<close>.
\<close>

definition example_driver_location :: Template where
  "example_driver_location =
     \<lparr>Type = DriverLocation,
      Template = (\<lambda>f. (print_field f ''company'' @ ''/'' @ print_field f ''audience'' @ ''/''
                          @ print_field f ''hashId'' @ ''/location'', None)),
      Regex = (\<lambda>s. contains s ''/location''),
      HashType = MD5,
      Accesses = [''driver'' \<mapsto> Pub]\<rparr>"

text \<open>
  The template \<^verbatim>\<open>{{.company}}/{{.audience}}/{{.hashId}}/call/{{.node}}/send\<close>, matched
  by \<^verbatim>\<open>/call/\<close>.
\<close>

definition example_node_call_entry :: Template where
  "example_node_call_entry =
     \<lparr>Type = NodeCallEntry,
      Template = (\<lambda>f. (print_field f ''company'' @ ''/'' @ print_field f ''audience'' @ ''/''
                          @ print_field f ''hashId'' @ ''/call/'' @ print_field f ''node'' @ ''/send'',
                        None)),
      Regex = (\<lambda>s. contains s ''/call/''),
      HashType = HashID,
      Accesses = [''driver'' \<mapsto> Pub, ''passenger'' \<mapsto> Pub]\<rparr>"

text \<open>
  The template \<^verbatim>\<open>{{.company}}/{{.audience}}/{{.hashId}}/call/send\<close>, matched by
  \<^verbatim>\<open>/call/send\<close>: every topic it renders is also matched by the node call entry above.
\<close>

definition example_call_outgoing :: Template where
  "example_call_outgoing =
     \<lparr>Type = CallOutgoing,
      Template = (\<lambda>f. (print_field f ''company'' @ ''/'' @ print_field f ''audience'' @ ''/''
                          @ print_field f ''hashId'' @ ''/call/send'', None)),
      Regex = (\<lambda>s. contains s ''/call/send''),
      HashType = HashID,
      Accesses = [''driver'' \<mapsto> Sub, ''passenger'' \<mapsto> Sub]\<rparr>"

definition example_manager :: Manager where
  "example_manager =
     \<lparr>HashIDSManager = example_hashids,
      Company = ''snapp'',
      TopicTemplates = [example_cab_event, example_driver_location,
                        example_node_call_entry, example_call_outgoing]\<rparr>"

text \<open>
  An authenticator over the example registry that allows publishing and subscribing. Its
  parser knows three tokens: one with the issuer \<open>driver\<close> and a subject, one with
  a subject only and one with an issuer only. The lookup handed to \<open>ACL\<close> in the examples is the scan of
  \<open>GetTopicTemplate\<close>.
\<close>

definition example_claims :: MapClaims where
  "example_claims = [''iss'' \<mapsto> ClaimString ''driver'', ''sub'' \<mapsto> ClaimString ''DXKgaNQa7N5Y7bo'']"

definition example_authenticator :: AutoAuthenticator where
  "example_authenticator =
     \<lparr>AllowedAccessTypes = [Pub, Sub],
      TopicManager = example_manager,
      JWTConfig = \<lparr>IssName = ''iss'', SubName = ''sub''\<rparr>,
      Parser = (\<lambda>tokenString.
        if tokenString = ''driver.token'' then Inr example_claims
        else if tokenString = ''anonymous.token''
          then Inr [''sub'' \<mapsto> ClaimString ''DXKgaNQa7N5Y7bo'']
        else if tokenString = ''subjectless.token''
          then Inr [''iss'' \<mapsto> ClaimString ''driver'']
        else Inl ''token is malformed'')\<rparr>"

definition example_lookup ::
  "Manager \<Rightarrow> string \<Rightarrow> string \<Rightarrow> string \<Rightarrow> MapClaims \<Rightarrow> Template option" where
  "example_lookup m topic issuer sub claims = GetTopicTemplate m topic"





section \<open>Facts about the loops\<close>

lemma firstTemplate_find:
  "firstTemplate ts topic = find (\<lambda>each. Regex each topic) ts"
  by (induction ts) simp_all

lemma firstType_find:
  "firstType ts topic =
     (case find (\<lambda>each. Regex each topic) ts of None \<Rightarrow> '''' | Some each \<Rightarrow> Type each)"
  by (induction ts) simp_all


text \<open>
  The example templates on a field map that lacks keys they use: the missing fields are
  written as \<^verbatim>\<open><no value>\<close>, and the execution does not fail.
\<close>

lemma example_templates_missing_keys:
  "Parse example_driver_location [''company'' \<mapsto> ''snapp'']
     = ''snapp/<no value>/<no value>/location''"
  "Parse example_cab_event [''audience'' \<mapsto> ''driver''] = ''driver-event-<no value>''"
  by code_simp+

lemma firstTemplate_least:
  assumes "i < length ts" and "Regex (ts ! i) topic"
    and "\<And>k. k < i \<Longrightarrow> \<not> Regex (ts ! k) topic"
  shows "firstTemplate ts topic = Some (ts ! i)"
  using assms
proof (induction ts arbitrary: i)
  case Nil
  then show ?case by simp
next
  case (Cons each rest)
  show ?case
  proof (cases i)
    case 0
    with Cons.prems(2) show ?thesis by simp
  next
    case (Suc n)
    have first: "\<not> Regex each topic"
      using Cons.prems(3) [of 0] Suc by simp
    have later: "\<And>k. k < n \<Longrightarrow> \<not> Regex (rest ! k) topic"
    proof -
      fix k assume "k < n"
      then have "Suc k < i" using Suc by simp
      from Cons.prems(3) [OF this] show "\<not> Regex (rest ! k) topic" by simp
    qed
    have "firstTemplate rest topic = Some (rest ! n)"
      using Cons.IH [of n] Cons.prems(1,2) Suc later by simp
    with first Suc show ?thesis by simp
  qed
qed

lemma firstType_firstTemplate:
  "firstType ts topic = (case firstTemplate ts topic of None \<Rightarrow> '''' | Some each \<Rightarrow> Type each)"
  by (induction ts) simp_all

lemma firstTemplate_None_iff:
  "firstTemplate ts topic = None \<longleftrightarrow> \<not> (\<exists>each \<in> set ts. Regex each topic)"
  by (induction ts) simp_all

lemma firstTemplate_Some_matches:
  "firstTemplate ts topic = Some each \<Longrightarrow> each \<in> set ts \<and> Regex each topic"
  by (induction ts) (auto split: if_splits)

lemma allowed_loop_iff: "allowed_loop allowed accessType \<longleftrightarrow> accessType \<in> set allowed"
  by (induction allowed) auto

lemma TrimPrefix_no_prefix: "\<not> HasPrefix s pre \<Longrightarrow> TrimPrefix s pre = s"
  by (simp add: TrimPrefix_def)

text \<open>
  When a pattern matches and the identity token is derived, the self-topic check returns the
  comparison of the rendered string with the topic, unless the pattern is the node call entry
  and the topic has fewer than five pieces.
\<close>

lemma ValidateTopicBySender_no_pattern:
  "GetTopicTemplate t topic = None \<Longrightarrow>
   ValidateTopicBySender md5_Sum t topic issuer sub = Inr False"
  by (simp add: ValidateTopicBySender_def)

lemma ValidateTopicBySender_no_token:
  "GetTopicTemplate t topic = Some p \<Longrightarrow>
   getHashID md5_Sum t (Type p) sub issuer = Inl err \<Longrightarrow>
   ValidateTopicBySender md5_Sum t topic issuer sub = Inr False"
  by (simp add: ValidateTopicBySender_def Let_def)

lemma ValidateTopicBySender_rendered:
  assumes "GetTopicTemplate t topic = Some p"
    and "getHashID md5_Sum t (Type p) sub issuer = Inr hashID"
    and "Type p \<noteq> NodeCallEntry"
  shows "ValidateTopicBySender md5_Sum t topic issuer sub =
     Inr (Parse p [''audience'' \<mapsto> issuerToAudienceStr issuer, ''company'' \<mapsto> Company t,
                   ''peer'' \<mapsto> peerOfAudience (issuerToAudienceStr issuer),
                   ''hashId'' \<mapsto> hashID] = topic)"
  using assms by (simp add: ValidateTopicBySender_def Let_def field_of_def)

lemma ValidateTopicBySender_rendered_node:
  assumes "GetTopicTemplate t topic = Some p"
    and "getHashID md5_Sum t (Type p) sub issuer = Inr hashID"
    and "Type p = NodeCallEntry"
    and "4 < length (Split topic CHR ''/'')"
  shows "ValidateTopicBySender md5_Sum t topic issuer sub =
     Inr (Parse p [''audience'' \<mapsto> issuerToAudienceStr issuer, ''company'' \<mapsto> Company t,
                   ''peer'' \<mapsto> peerOfAudience (issuerToAudienceStr issuer),
                   ''hashId'' \<mapsto> hashID,
                   ''node'' \<mapsto> Split topic CHR ''/'' ! 4] = topic)"
  using assms by (simp add: ValidateTopicBySender_def Let_def field_of_def)

section \<open>Access decisions\<close>

text \<open>
  Claim C1, as stated: for an audience with no entry in the Accesses map, HasAccess returns
  false for every requested access type, the Unset sentinel included. The code compares the
  looked-up zero value with the requested type by plain equality, so a request for the
  zero value itself is granted: the statement fails at the requested type Unset.
\<close>

theorem C1_absent_audience_unset_counterexample:
  "Accesses \<lparr>Type = ''driver_location'', Template = (\<lambda>f. ([], None)),
              Regex = (\<lambda>s. True), HashType = HashID, Accesses = Map.empty\<rparr> ''driver'' = None
   \<and> HasAccess \<lparr>Type = ''driver_location'', Template = (\<lambda>f. ([], None)),
              Regex = (\<lambda>s. True), HashType = HashID, Accesses = Map.empty\<rparr> ''driver'' Unset"
  by (simp add: HasAccess_def access_of_def)

text \<open>
  Claim C1, amended: for an audience with no entry in the Accesses map, HasAccess returns
  false for every requested access type other than the Unset sentinel, that is for Publish,
  Subscribe and PublishSubscribe; for the Unset sentinel it returns true.
\<close>

theorem C1_absent_audience_denies:
  assumes "Accesses t audience = None"
  shows "HasAccess t audience accessType = (accessType = Unset)"
  using assms by (auto simp add: HasAccess_def access_of_def)

theorem C1_absent_audience_denies_witness:
  "\<not> HasAccess \<lparr>Type = ''driver_location'', Template = (\<lambda>f. ([], None)),
       Regex = (\<lambda>s. True), HashType = HashID, Accesses = [''driver'' \<mapsto> Pub]\<rparr> ''passenger'' PubSub
   \<and> \<not> HasAccess \<lparr>Type = ''driver_location'', Template = (\<lambda>f. ([], None)),
       Regex = (\<lambda>s. True), HashType = HashID, Accesses = [''driver'' \<mapsto> Pub]\<rparr> ''passenger'' Pub
   \<and> \<not> HasAccess \<lparr>Type = ''driver_location'', Template = (\<lambda>f. ([], None)),
       Regex = (\<lambda>s. True), HashType = HashID, Accesses = [''driver'' \<mapsto> Pub]\<rparr> ''passenger'' Sub"
  using C1_absent_audience_denies
    [of "\<lparr>Type = ''driver_location'', Template = (\<lambda>f. ([], None)),
          Regex = (\<lambda>s. True), HashType = HashID, Accesses = [''driver'' \<mapsto> Pub]\<rparr>" "''passenger''"]
  by simp

text \<open>
  Claim C2: HasAccess returns true if and only if the access declared for the audience equals
  PublishSubscribe or equals the requested type exactly. For an audience with an entry in the
  Accesses map the declared access is that entry; for an audience with no entry it is the zero
  value Unset, so that only a request for Unset itself is granted. A declared PublishSubscribe
  grants a Publish and a Subscribe request, and a declared Publish denies a Subscribe request.
\<close>

theorem C2_has_access_iff:
  "(\<forall>access. Accesses t audience = Some access \<longrightarrow>
       (HasAccess t audience accessType \<longleftrightarrow> access = PubSub \<or> access = accessType))
   \<and> (Accesses t audience = None \<longrightarrow>
       (HasAccess t audience accessType \<longleftrightarrow> accessType = Unset))
   \<and> (Accesses t audience = Some PubSub \<longrightarrow>
       HasAccess t audience Pub \<and> HasAccess t audience Sub)
   \<and> (Accesses t audience = Some Pub \<longrightarrow> \<not> HasAccess t audience Sub)"
  by (auto simp add: HasAccess_def access_of_def Let_def)

theorem C2_has_access_iff_witness:
  "Accesses (example_cab_event\<lparr>Accesses := [''driver'' \<mapsto> PubSub]\<rparr>) ''driver'' = Some PubSub
   \<and> HasAccess (example_cab_event\<lparr>Accesses := [''driver'' \<mapsto> PubSub]\<rparr>) ''driver'' Pub
   \<and> HasAccess (example_cab_event\<lparr>Accesses := [''driver'' \<mapsto> PubSub]\<rparr>) ''driver'' Sub
   \<and> HasAccess (example_cab_event\<lparr>Accesses := [''driver'' \<mapsto> PubSub]\<rparr>) ''driver'' PubSub
   \<and> Accesses example_driver_location ''driver'' = Some Pub
   \<and> HasAccess example_driver_location ''driver'' Pub
   \<and> \<not> HasAccess example_driver_location ''driver'' Sub
   \<and> \<not> HasAccess example_driver_location ''driver'' PubSub
   \<and> Accesses example_driver_location ''passenger'' = None
   \<and> \<not> HasAccess example_driver_location ''passenger'' Pub
   \<and> \<not> HasAccess example_driver_location ''passenger'' PubSub"
proof -
  have wildcard: "Accesses (example_cab_event\<lparr>Accesses := [''driver'' \<mapsto> PubSub]\<rparr>) ''driver'' = Some PubSub"
    by simp
  have publish: "Accesses example_driver_location ''driver'' = Some Pub"
    by (simp add: example_driver_location_def)
  have absent: "Accesses example_driver_location ''passenger'' = None"
    by (simp add: example_driver_location_def)
  note node = C2_has_access_iff [of "example_cab_event\<lparr>Accesses := [''driver'' \<mapsto> PubSub]\<rparr>" "''driver''"]
  note location = C2_has_access_iff [of example_driver_location "''driver''"]
  note stranger = C2_has_access_iff [of example_driver_location "''passenger''"]
  have "HasAccess (example_cab_event\<lparr>Accesses := [''driver'' \<mapsto> PubSub]\<rparr>) ''driver'' Pub"
    "HasAccess (example_cab_event\<lparr>Accesses := [''driver'' \<mapsto> PubSub]\<rparr>) ''driver'' Sub"
    "HasAccess (example_cab_event\<lparr>Accesses := [''driver'' \<mapsto> PubSub]\<rparr>) ''driver'' PubSub"
    using node [of Pub] node [of PubSub] wildcard by simp_all
  moreover have "HasAccess example_driver_location ''driver'' Pub"
    "\<not> HasAccess example_driver_location ''driver'' Sub"
    "\<not> HasAccess example_driver_location ''driver'' PubSub"
    using location [of Pub] location [of Sub] location [of PubSub] publish by simp_all
  moreover have "\<not> HasAccess example_driver_location ''passenger'' Pub"
    "\<not> HasAccess example_driver_location ''passenger'' PubSub"
    using stranger [of Pub] stranger [of PubSub] absent by simp_all
  ultimately show ?thesis
    using wildcard publish absent by simp
qed

section \<open>Rendering\<close>

text \<open>
  Claim C9: on every field map on which the execution of the template fails, Parse returns
  the empty string; the error is not handed to the caller (the result is a plain string),
  and the text written before the failure is dropped.
\<close>

theorem C9_parse_failure_is_empty:
  assumes "snd (Template t flds) \<noteq> None"
  shows "Parse t flds = ''''"
  using assms by (auto simp add: Parse_def split: prod.splits option.splits)

theorem C9_parse_failure_is_empty_witness:
  "snd (Template \<lparr>Type = ''driver_location'',
          Template = (\<lambda>f. case f ''hashId'' of
                             None \<Rightarrow> (''snapp/driver/'', Some ''map has no entry for key hashId'')
                           | Some h \<Rightarrow> (''snapp/driver/'' @ h, None)),
          Regex = (\<lambda>s. True), HashType = HashID, Accesses = Map.empty\<rparr>
        [''company'' \<mapsto> ''snapp'']) \<noteq> None
   \<and> Parse \<lparr>Type = ''driver_location'',
          Template = (\<lambda>f. case f ''hashId'' of
                             None \<Rightarrow> (''snapp/driver/'', Some ''map has no entry for key hashId'')
                           | Some h \<Rightarrow> (''snapp/driver/'' @ h, None)),
          Regex = (\<lambda>s. True), HashType = HashID, Accesses = Map.empty\<rparr>
        [''company'' \<mapsto> ''snapp''] = ''''"
  using C9_parse_failure_is_empty
    [of "\<lparr>Type = ''driver_location'',
          Template = (\<lambda>f. case f ''hashId'' of
                             None \<Rightarrow> (''snapp/driver/'', Some ''map has no entry for key hashId'')
                           | Some h \<Rightarrow> (''snapp/driver/'' @ h, None)),
          Regex = (\<lambda>s. True), HashType = HashID, Accesses = Map.empty\<rparr>"
        "[''company'' \<mapsto> ''snapp'']"]
  by simp

section \<open>The self-topic check\<close>

text \<open>
  Claim C3 says that a topic that classifies as the node call entry but has fewer pieces than
  the extraction of the routing segment needs is denied, not a crash. The code indexes
  \<^verbatim>\<open>strings.Split(topic, "/")[4]\<close> without a check of the length: on every such topic
  the call panics with an index out of range, whatever the issuer and the subject are.
\<close>

theorem C3_short_node_topic_panics:
  assumes "GetTopicTemplate t topic = Some p"
    and "Type p = NodeCallEntry"
    and "length (Split topic CHR ''/'') < 5"
  shows "GetTopicType t topic = NodeCallEntry
     \<and> ValidateTopicBySender md5_Sum t topic issuer sub
         = Inl (IndexOutOfRange 4 (length (Split topic CHR ''/'')))"
proof -
  have "getHashID md5_Sum t (Type p) sub issuer = Inr sub"
    using assms(2) by (simp add: getHashID_def NodeCallEntry_def CabEvent_def)
  then have "ValidateTopicBySender md5_Sum t topic issuer sub
         = Inl (IndexOutOfRange 4 (length (Split topic CHR ''/'')))"
    using assms by (simp add: ValidateTopicBySender_def Let_def)
  moreover have "GetTopicType t topic = NodeCallEntry"
    using assms(1,2)
    by (simp add: GetTopicType_def GetTopicTemplate_def Let_def firstType_firstTemplate)
  ultimately show ?thesis by simp
qed

theorem C3_short_node_topic_panics_witness:
  "GetTopicTemplate example_manager ''snapp/driver/call/send'' = Some example_node_call_entry
   \<and> Type example_node_call_entry = NodeCallEntry
   \<and> length (Split ''snapp/driver/call/send'' CHR ''/'') < 5
   \<and> GetTopicType example_manager ''snapp/driver/call/send'' = NodeCallEntry
   \<and> ValidateTopicBySender example_digest example_manager ''snapp/driver/call/send''
         user_Driver ''DXKgaNQa7N5Y7bo'' = Inl (IndexOutOfRange 4 4)"
proof -
  have trim: "TrimPrefix ''snapp/driver/call/send'' ''snapp'' = ''/driver/call/send''"
    by code_simp
  have skip: "\<not> Regex example_cab_event ''/driver/call/send''"
    "\<not> Regex example_driver_location ''/driver/call/send''"
    by code_simp+
  have hit: "Regex example_node_call_entry ''/driver/call/send''"
    by code_simp
  have match: "GetTopicTemplate example_manager ''snapp/driver/call/send''
                 = Some example_node_call_entry"
    using skip hit by (simp add: GetTopicTemplate_def example_manager_def trim)
  have kind: "Type example_node_call_entry = NodeCallEntry"
    by (simp add: example_node_call_entry_def)
  have pieces: "Split ''snapp/driver/call/send'' CHR ''/''
                  = [''snapp'', ''driver'', ''call'', ''send'']"
    by code_simp
  have short: "length (Split ''snapp/driver/call/send'' CHR ''/'') < 5"
    by (simp add: pieces)
  from C3_short_node_topic_panics [OF match kind short, of example_digest user_Driver
      "''DXKgaNQa7N5Y7bo''"] match kind short pieces
  show ?thesis by simp
qed

text \<open>
  Claim C4 says that the self-topic check returns false when no pattern matches or the
  derivation of the identity token fails, and otherwise returns the comparison of the rendered
  string with the topic. At the topic \<open>/call/\<close> a pattern matches and the token is
  derived, yet the check returns nothing: it panics at the index expression of the routing
  segment, before anything is rendered. This is the defect of claim C3.
\<close>

theorem C4_no_result_after_derivation:
  "GetTopicTemplate example_manager ''/call/'' = Some example_node_call_entry
   \<and> getHashID example_digest example_manager (Type example_node_call_entry) ''abc''
         user_Passenger = Inr ''abc''
   \<and> ValidateTopicBySender example_digest example_manager ''/call/'' user_Passenger ''abc''
         = Inl (IndexOutOfRange 4 3)"
proof -
  have trim: "TrimPrefix ''/call/'' ''snapp'' = ''/call/''"
    by code_simp
  have skip: "\<not> Regex example_cab_event ''/call/''"
    "\<not> Regex example_driver_location ''/call/''"
    by code_simp+
  have hit: "Regex example_node_call_entry ''/call/''"
    by code_simp
  have match: "GetTopicTemplate example_manager ''/call/'' = Some example_node_call_entry"
    using skip hit by (simp add: GetTopicTemplate_def example_manager_def trim)
  have token: "getHashID example_digest example_manager (Type example_node_call_entry) ''abc''
         user_Passenger = Inr ''abc''"
    by code_simp
  have pieces: "Split ''/call/'' CHR ''/'' = [[], ''call'', []]"
    by code_simp
  have kind: "Type example_node_call_entry = NodeCallEntry"
    by (simp add: example_node_call_entry_def)
  have "ValidateTopicBySender example_digest example_manager ''/call/'' user_Passenger ''abc''
         = Inl (IndexOutOfRange 4 3)"
    using token kind by (simp add: ValidateTopicBySender_def Let_def match pieces)
  with match token show ?thesis by simp
qed

section \<open>Classification\<close>

text \<open>
  Claim C5: when two (or more) patterns of the registry accept the prefix-stripped topic,
  GetTopicType returns the type of the earliest declared of them and GetTopicTemplate returns
  that pattern itself. Both are functions of the registry and the topic alone, so every call
  gives the same answer.
\<close>

theorem C5_first_match_wins:
  assumes "i < j" and "j < length (TopicTemplates t)"
    and "Regex (TopicTemplates t ! i) (TrimPrefix input (Company t))"
    and "Regex (TopicTemplates t ! j) (TrimPrefix input (Company t))"
    and "\<forall>k<i. \<not> Regex (TopicTemplates t ! k) (TrimPrefix input (Company t))"
  shows "GetTopicType t input = Type (TopicTemplates t ! i)
     \<and> GetTopicTemplate t input = Some (TopicTemplates t ! i)"
proof -
  have "i < length (TopicTemplates t)"
    using assms(1,2) by simp
  then have "firstTemplate (TopicTemplates t) (TrimPrefix input (Company t))
               = Some (TopicTemplates t ! i)"
    using assms(3,5) by (intro firstTemplate_least) simp_all
  then show ?thesis
    by (simp add: GetTopicType_def GetTopicTemplate_def firstType_firstTemplate)
qed

theorem C5_first_match_wins_witness:
  "Regex (TopicTemplates example_manager ! 2)
      (TrimPrefix ''snapp/driver/DXKgaNQa7N5Y7bo/call/send'' (Company example_manager))
   \<and> Regex (TopicTemplates example_manager ! 3)
      (TrimPrefix ''snapp/driver/DXKgaNQa7N5Y7bo/call/send'' (Company example_manager))
   \<and> GetTopicType example_manager ''snapp/driver/DXKgaNQa7N5Y7bo/call/send'' = NodeCallEntry
   \<and> GetTopicTemplate example_manager ''snapp/driver/DXKgaNQa7N5Y7bo/call/send''
       = Some example_node_call_entry"
proof -
  let ?topic = "''snapp/driver/DXKgaNQa7N5Y7bo/call/send''"
  have trim: "TrimPrefix ?topic (Company example_manager) = ''/driver/DXKgaNQa7N5Y7bo/call/send''"
    by code_simp
  have third: "TopicTemplates example_manager ! 2 = example_node_call_entry"
    and fourth: "TopicTemplates example_manager ! 3 = example_call_outgoing"
    by (simp_all add: example_manager_def)
  have m2: "Regex (TopicTemplates example_manager ! 2) (TrimPrefix ?topic (Company example_manager))"
    unfolding trim third by code_simp
  have m3: "Regex (TopicTemplates example_manager ! 3) (TrimPrefix ?topic (Company example_manager))"
    unfolding trim fourth by code_simp
  have n0: "\<not> Regex example_cab_event ''/driver/DXKgaNQa7N5Y7bo/call/send''"
    and n1: "\<not> Regex example_driver_location ''/driver/DXKgaNQa7N5Y7bo/call/send''"
    by code_simp+
  have earlier: "\<forall>k<2. \<not> Regex (TopicTemplates example_manager ! k)
                          (TrimPrefix ?topic (Company example_manager))"
  proof (intro allI impI)
    fix k :: nat assume "k < 2"
    then have "k = 0 \<or> k = 1" by auto
    then show "\<not> Regex (TopicTemplates example_manager ! k)
                    (TrimPrefix ?topic (Company example_manager))"
      unfolding trim using n0 n1 by (auto simp add: example_manager_def)
  qed
  have "(2::nat) < 3" and "3 < length (TopicTemplates example_manager)"
    by (simp_all add: example_manager_def)
  from C5_first_match_wins [OF this m2 m3 earlier] m2 m3 third
  show ?thesis by (simp add: example_node_call_entry_def)
qed

text \<open>
  Claim C10: for a topic that does not begin with the company prefix the stripping changes
  nothing. GetTopicTemplate returns the first pattern, in the order of declaration, whose
  matcher accepts the topic as it was given, and nothing when no matcher accepts it;
  GetTopicType returns the type of that pattern, and the empty string when there is none. So
  a topic without the prefix is classified by a pattern exactly when the matcher of some
  pattern accepts it as it is.
\<close>

theorem C10_unprefixed_topic_is_matched_unchanged:
  assumes "\<not> HasPrefix input (Company t)"
  shows "GetTopicTemplate t input = find (\<lambda>each. Regex each input) (TopicTemplates t)
     \<and> GetTopicType t input =
         (case find (\<lambda>each. Regex each input) (TopicTemplates t) of
            None \<Rightarrow> '''' | Some each \<Rightarrow> Type each)
     \<and> ((GetTopicTemplate t input \<noteq> None) = (\<exists>each \<in> set (TopicTemplates t). Regex each input))
     \<and> (\<forall>i. i < length (TopicTemplates t) \<and> Regex (TopicTemplates t ! i) input
              \<and> (\<forall>k<i. \<not> Regex (TopicTemplates t ! k) input) \<longrightarrow>
            GetTopicTemplate t input = Some (TopicTemplates t ! i)
            \<and> GetTopicType t input = Type (TopicTemplates t ! i))
     \<and> ((\<forall>each \<in> set (TopicTemplates t). \<not> Regex each input) \<longrightarrow>
            GetTopicTemplate t input = None \<and> GetTopicType t input = '''')"
proof -
  have same: "TrimPrefix input (Company t) = input"
    using assms by (rule TrimPrefix_no_prefix)
  have template: "GetTopicTemplate t input = find (\<lambda>each. Regex each input) (TopicTemplates t)"
    by (simp add: GetTopicTemplate_def same firstTemplate_find)
  have kind: "GetTopicType t input =
         (case find (\<lambda>each. Regex each input) (TopicTemplates t) of
            None \<Rightarrow> '''' | Some each \<Rightarrow> Type each)"
    by (simp add: GetTopicType_def same firstType_find)
  have known: "(GetTopicTemplate t input \<noteq> None)
                 = (\<exists>each \<in> set (TopicTemplates t). Regex each input)"
    by (simp add: GetTopicTemplate_def same firstTemplate_None_iff)
  have first: "\<forall>i. i < length (TopicTemplates t) \<and> Regex (TopicTemplates t ! i) input
              \<and> (\<forall>k<i. \<not> Regex (TopicTemplates t ! k) input) \<longrightarrow>
            GetTopicTemplate t input = Some (TopicTemplates t ! i)
            \<and> GetTopicType t input = Type (TopicTemplates t ! i)"
  proof (intro allI impI)
    fix i
    assume h: "i < length (TopicTemplates t) \<and> Regex (TopicTemplates t ! i) input
              \<and> (\<forall>k<i. \<not> Regex (TopicTemplates t ! k) input)"
    then have "firstTemplate (TopicTemplates t) input = Some (TopicTemplates t ! i)"
      by (intro firstTemplate_least) simp_all
    then show "GetTopicTemplate t input = Some (TopicTemplates t ! i)
            \<and> GetTopicType t input = Type (TopicTemplates t ! i)"
      by (simp add: GetTopicTemplate_def GetTopicType_def same firstType_firstTemplate)
  qed
  have none: "(\<forall>each \<in> set (TopicTemplates t). \<not> Regex each input) \<longrightarrow>
            GetTopicTemplate t input = None \<and> GetTopicType t input = ''''"
  proof
    assume "\<forall>each \<in> set (TopicTemplates t). \<not> Regex each input"
    then have "firstTemplate (TopicTemplates t) input = None"
      by (simp add: firstTemplate_None_iff)
    then show "GetTopicTemplate t input = None \<and> GetTopicType t input = []"
      by (simp add: GetTopicTemplate_def GetTopicType_def same firstType_firstTemplate)
  qed
  from template kind known first none show ?thesis by blast
qed

theorem C10_unprefixed_topic_is_matched_unchanged_witness:
  "\<not> HasPrefix ''acme/driver/DXKgaNQa7N5Y7bo/location'' (Company example_manager)
   \<and> \<not> Regex example_cab_event ''acme/driver/DXKgaNQa7N5Y7bo/location''
   \<and> Regex example_driver_location ''acme/driver/DXKgaNQa7N5Y7bo/location''
   \<and> GetTopicTemplate example_manager ''acme/driver/DXKgaNQa7N5Y7bo/location''
       = Some example_driver_location
   \<and> GetTopicType example_manager ''acme/driver/DXKgaNQa7N5Y7bo/location'' = DriverLocation
   \<and> \<not> HasPrefix ''unknown-thing'' (Company example_manager)
   \<and> GetTopicTemplate example_manager ''unknown-thing'' = None
   \<and> GetTopicType example_manager ''unknown-thing'' = []"
proof -
  let ?topic = "''acme/driver/DXKgaNQa7N5Y7bo/location''"
  have unprefixed: "\<not> HasPrefix ?topic (Company example_manager)"
    by code_simp
  have miss: "\<not> Regex example_cab_event ?topic"
    by code_simp
  have hit: "Regex example_driver_location ?topic"
    by code_simp
  have stranger: "\<not> HasPrefix ''unknown-thing'' (Company example_manager)"
    by code_simp
  have misses: "\<not> Regex example_cab_event ''unknown-thing''"
    "\<not> Regex example_driver_location ''unknown-thing''"
    "\<not> Regex example_node_call_entry ''unknown-thing''"
    "\<not> Regex example_call_outgoing ''unknown-thing''"
    by code_simp+
  have found: "GetTopicTemplate example_manager ?topic = Some example_driver_location
     \<and> GetTopicType example_manager ?topic = DriverLocation"
    using C10_unprefixed_topic_is_matched_unchanged [OF unprefixed] miss hit
    by (simp add: example_manager_def) (simp add: example_driver_location_def)
  have unknown: "GetTopicTemplate example_manager ''unknown-thing'' = None
     \<and> GetTopicType example_manager ''unknown-thing'' = []"
    using C10_unprefixed_topic_is_matched_unchanged [OF stranger] misses
    by (simp add: example_manager_def)
  from unprefixed miss hit found stranger unknown show ?thesis by blast
qed

section \<open>The identity token\<close>

text \<open>
  Claim C6, as stated: the identity token of the self-topic field set is selected by the
  declared hash kind of the pattern. The code never reads the declared kind: the driver
  location pattern declares \<open>MD5\<close> and gets the subject itself as its token, and the cab
  event pattern declares \<open>HashID\<close> and gets the hexadecimal MD5 digest.
\<close>

theorem C6_declared_hash_kind_counterexample:
  "HashType example_driver_location = MD5
   \<and> getHashID example_digest example_manager (Type example_driver_location)
         ''DXKgaNQa7N5Y7bo'' user_Driver = Inr ''DXKgaNQa7N5Y7bo''
   \<and> HashType example_cab_event = HashID
   \<and> getHashID example_digest example_manager (Type example_cab_event)
         ''DXKgaNQa7N5Y7bo'' user_Driver = Inr ''152384980615c2bd16143cff29038b67''"
proof -
  have "getHashID example_digest example_manager (Type example_driver_location)
         ''DXKgaNQa7N5Y7bo'' user_Driver = Inr ''DXKgaNQa7N5Y7bo''"
    by code_simp
  moreover have "getHashID example_digest example_manager (Type example_cab_event)
         ''DXKgaNQa7N5Y7bo'' user_Driver = Inr ''152384980615c2bd16143cff29038b67''"
    by code_simp
  ultimately show ?thesis
    by (simp add: example_driver_location_def example_cab_event_def)
qed

text \<open>
  Claim C6, amended: the identity token is selected by the type of the pattern, whatever hash
  kind the pattern declares. For the cab event pattern the subject is decoded by the identity
  codec for the audience of the issuer; a failure of the decoding is the error
  \<open>ErrDecodeHashID\<close>, and otherwise the token is the secondary hash of the decoded id: the
  lower-case hexadecimal form of the MD5 digest of the fixed prefix \<open>emqch\<close>, a hyphen and
  the decimal string of the id, so the same id always yields the same token. For every other
  pattern the token is the subject itself, not decoded.
\<close>

theorem C6_token_selected_by_topic_type:
  "(Type p \<noteq> CabEvent \<longrightarrow> getHashID md5_Sum t (Type p) sub issuer = Inr sub)
   \<and> (\<forall>ident. Type p = CabEvent
          \<and> DecodeHashID (HashIDSManager t) sub (issuerToAudience issuer) = Inr ident
        \<longrightarrow> getHashID md5_Sum t (Type p) sub issuer
              = Inr (Sprintf_x (md5_Sum (''emqch-'' @ Itoa ident))))
   \<and> (\<forall>err. Type p = CabEvent
          \<and> DecodeHashID (HashIDSManager t) sub (issuerToAudience issuer) = Inl err
        \<longrightarrow> getHashID md5_Sum t (Type p) sub issuer = Inl ErrDecodeHashID)
   \<and> getHashID md5_Sum t (Type (p\<lparr>HashType := kind\<rparr>)) sub issuer
       = getHashID md5_Sum t (Type p) sub issuer"
  by (simp add: getHashID_def EmqCabHashPrefix_def Let_def)

theorem C6_token_selected_by_topic_type_witness:
  "Type example_driver_location \<noteq> CabEvent
   \<and> getHashID example_digest example_manager (Type example_driver_location)
         ''DXKgaNQa7N5Y7bo'' user_Driver = Inr ''DXKgaNQa7N5Y7bo''
   \<and> Type example_cab_event = CabEvent
   \<and> DecodeHashID (HashIDSManager example_manager) ''DXKgaNQa7N5Y7bo''
         (issuerToAudience user_Driver) = Inr 123
   \<and> getHashID example_digest example_manager (Type example_cab_event)
         ''DXKgaNQa7N5Y7bo'' user_Driver = Inr (Sprintf_x (example_digest (''emqch-'' @ Itoa 123)))
   \<and> Sprintf_x (example_digest (''emqch-'' @ Itoa 123)) = ''152384980615c2bd16143cff29038b67''
   \<and> DecodeHashID (HashIDSManager example_manager) ''DXKgaNQa7N5Y7bo''
         (issuerToAudience user_Passenger) = Inl ''could not decode''
   \<and> getHashID example_digest example_manager (Type example_cab_event)
         ''DXKgaNQa7N5Y7bo'' user_Passenger = Inl ErrDecodeHashID"
proof -
  have other: "Type example_driver_location \<noteq> CabEvent"
    by (simp add: example_driver_location_def DriverLocation_def CabEvent_def)
  have cab: "Type example_cab_event = CabEvent"
    by (simp add: example_cab_event_def)
  have decoded: "DecodeHashID (HashIDSManager example_manager) ''DXKgaNQa7N5Y7bo''
         (issuerToAudience user_Driver) = Inr 123"
    by (simp add: example_manager_def example_hashids_def)
  have refused: "DecodeHashID (HashIDSManager example_manager) ''DXKgaNQa7N5Y7bo''
         (issuerToAudience user_Passenger) = Inl ''could not decode''"
    by (simp add: example_manager_def example_hashids_def)
  have hex: "Sprintf_x (example_digest (''emqch-'' @ Itoa 123)) = ''152384980615c2bd16143cff29038b67''"
    by code_simp
  note driver = C6_token_selected_by_topic_type
    [of example_driver_location example_digest example_manager "''DXKgaNQa7N5Y7bo''" user_Driver]
  note cab_driver = C6_token_selected_by_topic_type
    [of example_cab_event example_digest example_manager "''DXKgaNQa7N5Y7bo''" user_Driver]
  note cab_passenger = C6_token_selected_by_topic_type
    [of example_cab_event example_digest example_manager "''DXKgaNQa7N5Y7bo''" user_Passenger]
  have "getHashID example_digest example_manager (Type example_driver_location)
         ''DXKgaNQa7N5Y7bo'' user_Driver = Inr ''DXKgaNQa7N5Y7bo''"
    using driver other by blast
  moreover have "getHashID example_digest example_manager (Type example_cab_event)
         ''DXKgaNQa7N5Y7bo'' user_Driver = Inr (Sprintf_x (example_digest (''emqch-'' @ Itoa 123)))"
    using cab_driver cab decoded by blast
  moreover have "getHashID example_digest example_manager (Type example_cab_event)
         ''DXKgaNQa7N5Y7bo'' user_Passenger = Inl ErrDecodeHashID"
    using cab_passenger cab refused by blast
  ultimately show ?thesis
    using other cab decoded refused hex by simp
qed

section \<open>The round trip of rendering and classification\<close>




section \<open>The order of the checks of the orchestrator\<close>

text \<open>
  Claim C7: ACL checks, in this order, that the requested access type is in the allow-list
  (\<open>ErrInvalidAccessType\<close>), that the issuer claim is present (\<open>ErrIssNotFound\<close>), that
  the subject claim is present (\<open>ErrSubNotFound\<close>), that a pattern matches the topic
  (\<open>InvalidTopicError\<close> with the topic) and that the matched pattern grants the issuer the
  requested access (\<open>TopicNotAllowedError\<close> with issuer, subject, requested type, topic and
  pattern type); it returns false with the reason of the first check that fails, and true,
  with no error, only when all of them pass. The claims are those that the parser reads from
  the token, after the first check; a token that the parser rejects is denied with
  \<open>ErrInvalidClaims\<close>, so for such a token no check on the claims can pass. Every denial
  carries a reason.
\<close>

theorem C7_acl_checks_in_order:
  "(ValidateAccessType a accessType \<longleftrightarrow> accessType \<in> set (AllowedAccessTypes a))
   \<and> (\<not> ValidateAccessType a accessType \<longrightarrow>
        ACL ParseTopic a accessType tokenString topic = (False, Some ErrInvalidAccessType))
   \<and> (\<forall>err. ValidateAccessType a accessType \<and> Parser a tokenString = Inl err \<longrightarrow>
        ACL ParseTopic a accessType tokenString topic = (False, Some ErrInvalidClaims))
   \<and> (\<forall>claims. Parser a tokenString = Inr claims \<longrightarrow>
        (let iss = claim_of claims (IssName (JWTConfig a));
             sb = claim_of claims (SubName (JWTConfig a));
             issuer = Sprintf_v iss;
             subject = assert_string sb;
             found = ParseTopic (TopicManager a) topic issuer subject claims;
             result = ACL ParseTopic a accessType tokenString topic
         in (ValidateAccessType a accessType \<and> iss = ClaimNil \<longrightarrow>
               result = (False, Some ErrIssNotFound))
          \<and> (ValidateAccessType a accessType \<and> iss \<noteq> ClaimNil \<and> sb = ClaimNil \<longrightarrow>
               result = (False, Some ErrSubNotFound))
          \<and> (ValidateAccessType a accessType \<and> iss \<noteq> ClaimNil \<and> sb \<noteq> ClaimNil
               \<and> found = None \<longrightarrow>
               result = (False, Some (InvalidTopicError topic)))
          \<and> (\<forall>p. ValidateAccessType a accessType \<and> iss \<noteq> ClaimNil \<and> sb \<noteq> ClaimNil
               \<and> found = Some p \<and> \<not> HasAccess p issuer accessType \<longrightarrow>
               result = (False, Some (TopicNotAllowedError issuer subject accessType topic
                                        (Type p))))
          \<and> (\<forall>p. ValidateAccessType a accessType \<and> iss \<noteq> ClaimNil \<and> sb \<noteq> ClaimNil
               \<and> found = Some p \<and> HasAccess p issuer accessType \<longrightarrow>
               result = (True, None))
          \<and> (fst result \<longleftrightarrow>
               ValidateAccessType a accessType \<and> iss \<noteq> ClaimNil \<and> sb \<noteq> ClaimNil
               \<and> (\<exists>p. found = Some p \<and> HasAccess p issuer accessType))))
   \<and> (fst (ACL ParseTopic a accessType tokenString topic) \<longleftrightarrow>
        ValidateAccessType a accessType
        \<and> (\<exists>claims. Parser a tokenString = Inr claims
              \<and> claim_of claims (IssName (JWTConfig a)) \<noteq> ClaimNil
              \<and> claim_of claims (SubName (JWTConfig a)) \<noteq> ClaimNil
              \<and> (\<exists>p. ParseTopic (TopicManager a) topic
                         (Sprintf_v (claim_of claims (IssName (JWTConfig a))))
                         (assert_string (claim_of claims (SubName (JWTConfig a)))) claims = Some p
                    \<and> HasAccess p (Sprintf_v (claim_of claims (IssName (JWTConfig a))))
                         accessType)))
   \<and> (fst (ACL ParseTopic a accessType tokenString topic) \<longleftrightarrow>
        ACL ParseTopic a accessType tokenString topic = (True, None))
   \<and> (\<not> fst (ACL ParseTopic a accessType tokenString topic) \<longleftrightarrow>
        snd (ACL ParseTopic a accessType tokenString topic) \<noteq> None)"
proof -
  have allow: "ValidateAccessType a accessType \<longleftrightarrow> accessType \<in> set (AllowedAccessTypes a)"
    by (simp add: ValidateAccessType_def allowed_loop_iff)
  have first: "\<not> ValidateAccessType a accessType \<longrightarrow>
        ACL ParseTopic a accessType tokenString topic = (False, Some ErrInvalidAccessType)"
    by (simp add: ACL_def)
  have unparsed: "\<forall>err. ValidateAccessType a accessType \<and> Parser a tokenString = Inl err \<longrightarrow>
        ACL ParseTopic a accessType tokenString topic = (False, Some ErrInvalidClaims)"
    by (simp add: ACL_def)
  have rest: "\<forall>claims. Parser a tokenString = Inr claims \<longrightarrow>
        (let iss = claim_of claims (IssName (JWTConfig a));
             sb = claim_of claims (SubName (JWTConfig a));
             issuer = Sprintf_v iss;
             subject = assert_string sb;
             found = ParseTopic (TopicManager a) topic issuer subject claims;
             result = ACL ParseTopic a accessType tokenString topic
         in (ValidateAccessType a accessType \<and> iss = ClaimNil \<longrightarrow>
               result = (False, Some ErrIssNotFound))
          \<and> (ValidateAccessType a accessType \<and> iss \<noteq> ClaimNil \<and> sb = ClaimNil \<longrightarrow>
               result = (False, Some ErrSubNotFound))
          \<and> (ValidateAccessType a accessType \<and> iss \<noteq> ClaimNil \<and> sb \<noteq> ClaimNil
               \<and> found = None \<longrightarrow>
               result = (False, Some (InvalidTopicError topic)))
          \<and> (\<forall>p. ValidateAccessType a accessType \<and> iss \<noteq> ClaimNil \<and> sb \<noteq> ClaimNil
               \<and> found = Some p \<and> \<not> HasAccess p issuer accessType \<longrightarrow>
               result = (False, Some (TopicNotAllowedError issuer subject accessType topic
                                        (Type p))))
          \<and> (\<forall>p. ValidateAccessType a accessType \<and> iss \<noteq> ClaimNil \<and> sb \<noteq> ClaimNil
               \<and> found = Some p \<and> HasAccess p issuer accessType \<longrightarrow>
               result = (True, None))
          \<and> (fst result \<longleftrightarrow>
               ValidateAccessType a accessType \<and> iss \<noteq> ClaimNil \<and> sb \<noteq> ClaimNil
               \<and> (\<exists>p. found = Some p \<and> HasAccess p issuer accessType)))"
    by (auto simp add: ACL_def Let_def split: option.splits)
  have only: "fst (ACL ParseTopic a accessType tokenString topic) \<longleftrightarrow>
        ValidateAccessType a accessType
        \<and> (\<exists>claims. Parser a tokenString = Inr claims
              \<and> claim_of claims (IssName (JWTConfig a)) \<noteq> ClaimNil
              \<and> claim_of claims (SubName (JWTConfig a)) \<noteq> ClaimNil
              \<and> (\<exists>p. ParseTopic (TopicManager a) topic
                         (Sprintf_v (claim_of claims (IssName (JWTConfig a))))
                         (assert_string (claim_of claims (SubName (JWTConfig a)))) claims = Some p
                    \<and> HasAccess p (Sprintf_v (claim_of claims (IssName (JWTConfig a))))
                         accessType))"
    by (cases "Parser a tokenString")
      (auto simp add: ACL_def Let_def split: option.splits)
  have clean: "fst (ACL ParseTopic a accessType tokenString topic) \<longleftrightarrow>
        ACL ParseTopic a accessType tokenString topic = (True, None)"
    by (cases "Parser a tokenString")
      (auto simp add: ACL_def Let_def split: option.splits)
  have reason: "\<not> fst (ACL ParseTopic a accessType tokenString topic) \<longleftrightarrow>
        snd (ACL ParseTopic a accessType tokenString topic) \<noteq> None"
    by (cases "Parser a tokenString")
      (auto simp add: ACL_def Let_def split: option.splits)
  from allow first unparsed rest only clean reason show ?thesis by blast
qed

theorem C7_acl_checks_in_order_witness:
  "ACL example_lookup example_authenticator PubSub ''driver.token''
       ''driver-event-152384980615c2bd16143cff29038b67'' = (False, Some ErrInvalidAccessType)
   \<and> ACL example_lookup example_authenticator Sub ''not a token''
       ''driver-event-152384980615c2bd16143cff29038b67'' = (False, Some ErrInvalidClaims)
   \<and> \<not> fst (ACL example_lookup example_authenticator Sub ''not a token''
       ''driver-event-152384980615c2bd16143cff29038b67'')
   \<and> ACL example_lookup example_authenticator Sub ''anonymous.token''
       ''driver-event-152384980615c2bd16143cff29038b67'' = (False, Some ErrIssNotFound)
   \<and> ACL example_lookup example_authenticator Sub ''subjectless.token''
       ''driver-event-152384980615c2bd16143cff29038b67'' = (False, Some ErrSubNotFound)
   \<and> ACL example_lookup example_authenticator Sub ''driver.token'' ''snapp/unknown-thing''
       = (False, Some (InvalidTopicError ''snapp/unknown-thing''))
   \<and> ACL example_lookup example_authenticator Pub ''driver.token''
       ''driver-event-152384980615c2bd16143cff29038b67''
       = (False, Some (TopicNotAllowedError ''driver'' ''DXKgaNQa7N5Y7bo'' Pub
                         ''driver-event-152384980615c2bd16143cff29038b67'' ''cab_event''))
   \<and> ACL example_lookup example_authenticator Sub ''driver.token''
       ''driver-event-152384980615c2bd16143cff29038b67'' = (True, None)"
proof -
  let ?a = example_authenticator
  let ?cab = "''driver-event-152384980615c2bd16143cff29038b67''"
  have driver: "Parser ?a ''driver.token'' = Inr example_claims"
    by (simp add: example_authenticator_def)
  have anonymous: "Parser ?a ''anonymous.token'' = Inr [''sub'' \<mapsto> ClaimString ''DXKgaNQa7N5Y7bo'']"
    by (simp add: example_authenticator_def)
  have subjectless: "Parser ?a ''subjectless.token'' = Inr [''iss'' \<mapsto> ClaimString ''driver'']"
    by (simp add: example_authenticator_def)
  have malformed: "Parser ?a ''not a token'' = Inl ''token is malformed''"
    by (simp add: example_authenticator_def)
  have allowed: "ValidateAccessType ?a Sub" "ValidateAccessType ?a Pub"
    "\<not> ValidateAccessType ?a PubSub"
    by code_simp+
  have names: "IssName (JWTConfig ?a) = ''iss''" "SubName (JWTConfig ?a) = ''sub''"
    "TopicManager ?a = example_manager"
    by (simp_all add: example_authenticator_def)
  have iss: "claim_of example_claims ''iss'' = ClaimString ''driver''"
    and sb: "claim_of example_claims ''sub'' = ClaimString ''DXKgaNQa7N5Y7bo''"
    and no_iss: "claim_of [''sub'' \<mapsto> ClaimString ''DXKgaNQa7N5Y7bo''] ''iss'' = ClaimNil"
    and some_iss: "claim_of [''iss'' \<mapsto> ClaimString ''driver''] ''iss'' = ClaimString ''driver''"
    and no_sub: "claim_of [''iss'' \<mapsto> ClaimString ''driver''] ''sub'' = ClaimNil"
    by (simp_all add: claim_of_def example_claims_def)
  have unprefixed: "TrimPrefix ?cab ''snapp'' = ?cab"
    by code_simp
  have hit: "Regex example_cab_event ?cab"
    by code_simp
  have cab: "example_lookup example_manager ?cab ''driver'' ''DXKgaNQa7N5Y7bo'' example_claims
               = Some example_cab_event"
    using hit by (simp add: example_lookup_def GetTopicTemplate_def example_manager_def unprefixed)
  have stripped: "TrimPrefix ''snapp/unknown-thing'' ''snapp'' = ''/unknown-thing''"
    by code_simp
  have misses: "\<not> Regex example_cab_event ''/unknown-thing''"
    "\<not> Regex example_driver_location ''/unknown-thing''"
    "\<not> Regex example_node_call_entry ''/unknown-thing''"
    "\<not> Regex example_call_outgoing ''/unknown-thing''"
    by code_simp+
  have unknown: "example_lookup example_manager ''snapp/unknown-thing'' ''driver''
                   ''DXKgaNQa7N5Y7bo'' example_claims = None"
    using misses by (simp add: example_lookup_def GetTopicTemplate_def example_manager_def stripped)
  have grants: "HasAccess example_cab_event ''driver'' Sub"
    "\<not> HasAccess example_cab_event ''driver'' Pub"
    by code_simp+
  have kind: "Type example_cab_event = ''cab_event''"
    by (simp add: example_cab_event_def CabEvent_def)
  have r1: "ACL example_lookup ?a PubSub ''driver.token'' ?cab = (False, Some ErrInvalidAccessType)"
    using C7_acl_checks_in_order [of ?a PubSub example_lookup "''driver.token''" ?cab] allowed
    by blast
  have r0: "ACL example_lookup ?a Sub ''not a token'' ?cab = (False, Some ErrInvalidClaims)"
    using C7_acl_checks_in_order [of ?a Sub example_lookup "''not a token''" ?cab]
      allowed malformed
    by blast
  then have r0': "\<not> fst (ACL example_lookup ?a Sub ''not a token'' ?cab)"
    by simp
  have r2: "ACL example_lookup ?a Sub ''anonymous.token'' ?cab = (False, Some ErrIssNotFound)"
    using C7_acl_checks_in_order [of ?a Sub example_lookup "''anonymous.token''" ?cab]
      allowed anonymous no_iss
    by (simp add: Let_def names)
  have r2': "ACL example_lookup ?a Sub ''subjectless.token'' ?cab = (False, Some ErrSubNotFound)"
    using C7_acl_checks_in_order [of ?a Sub example_lookup "''subjectless.token''" ?cab]
      allowed subjectless some_iss no_sub
    by (simp add: Let_def names)
  have r3: "ACL example_lookup ?a Sub ''driver.token'' ''snapp/unknown-thing''
              = (False, Some (InvalidTopicError ''snapp/unknown-thing''))"
    using C7_acl_checks_in_order [of ?a Sub example_lookup "''driver.token''" "''snapp/unknown-thing''"]
      allowed driver unknown
    by (simp add: Let_def names iss sb)
  have r4: "ACL example_lookup ?a Pub ''driver.token'' ?cab
              = (False, Some (TopicNotAllowedError ''driver'' ''DXKgaNQa7N5Y7bo'' Pub ?cab ''cab_event''))"
    using C7_acl_checks_in_order [of ?a Pub example_lookup "''driver.token''" ?cab]
      allowed driver cab grants
    by (simp add: Let_def names iss sb kind)
  have r5: "ACL example_lookup ?a Sub ''driver.token'' ?cab = (True, None)"
    using C7_acl_checks_in_order [of ?a Sub example_lookup "''driver.token''" ?cab]
      allowed driver cab grants
    by (simp add: Let_def names iss sb)
  from r1 r0 r0' r2 r2' r3 r4 r5 show ?thesis by blast
qed

end
